theory Spec2Isabelle
  imports Complex_Main "HOL-Library.Sublist"
begin

section \<open>SmartSense: sensor network, reading store and alert engine\<close>

text \<open>
  A shallow embedding of \<^verbatim>\<open>smartsense/core/monitor.py\<close> and of the alert and readings
  routes of \<^verbatim>\<open>smartsense/api/routes.py\<close>.

  Conventions.
  \<^item> A Python \<^verbatim>\<open>float\<close> is the real number it denotes (finite values; no NaN, no
    infinity). Comparisons of floats are exact, so they are comparisons of reals; a
    floating-point subtraction is the exact difference rounded to the nearest double
    (\<open>float_sub\<close> below).
  \<^item> \<^verbatim>\<open>datetime\<close> instants are naive datetimes, taken as reals counting seconds, so
    that \<^verbatim>\<open>(now - last).total_seconds()\<close> is a difference of reals.
  \<^item> Every operation takes the network and returns the network it leaves behind
    together with its outcome; an outcome \<open>Inl e\<close> is the exception \<open>e\<close> raised.
  \<^item> An action callback is an opaque callable without arguments whose return value
    is dropped; it is represented by what calling it does: return, or raise.
  \<^item> Log lines are recorded as events, in the order in which they are written.
\<close>

subsection \<open>Exceptions and values\<close>

datatype exn =
    ValueError
  | TypeError
  | KeyError string
  | HTTPException nat
  | RequestValidationError
  | RuntimeError string

type_synonym instant = real

text \<open>
  The value of an attribute of a reading: a number, a string, a datetime, or any other
  object (a bound method, a class, a dict), which supports neither an order comparison
  with a \<^verbatim>\<open>float\<close> nor a subtraction from one.
\<close>

datatype pyval = Num real | Str string | Instant instant | Object

text \<open>\<^verbatim>\<open>value: Union[float, List[float]]\<close> of an alert condition.\<close>

datatype threshold = Scalar real | Listval "real list"

subsection \<open>Data model (\<^verbatim>\<open>sensors/base.py\<close>, \<^verbatim>\<open>core/monitor.py\<close>)\<close>

text \<open>
  \<^verbatim>\<open>SensorReading\<close> has the two declared fields and, with \<^verbatim>\<open>extra = "allow"\<close> and
  its subclasses, any further data fields, kept here as an association list.
  \<open>class_attrs\<close> are the attributes that the class of the reading adds to those named
  in \<open>model_attrs\<close> below: the methods of a subclass (\<^verbatim>\<open>to_fahrenheit\<close>), and the
  further attributes (the double-underscore ones) of the installed pydantic's model
  class.
\<close>

record SensorReading =
  timestamp :: instant
  reading_sensor_id :: string
  extra_fields :: "(string \<times> pyval) list"
  class_attrs :: "(string \<times> pyval) list"

record Sensor =
  sensor_id_of :: string
  sensor_name :: string
  sensor_type :: string
  update_interval_of :: real
  pin :: "int option"

record AlertAction =
  name :: string
  callback :: "exn + unit"

record AlertCondition =
  sensor_id :: string
  field :: string
  operator :: string
  threshold_value :: threshold
  comparison_buffer :: real

record Alert =
  alert_id :: string
  alert_name :: string
  condition :: AlertCondition
  actions :: "AlertAction list"
  triggered :: bool
  last_triggered :: "instant option"
  cooldown :: int

record SensorNetwork =
  network_name :: string
  update_interval :: real
  sensors :: "string \<rightharpoonup> Sensor"
  readings :: "string \<rightharpoonup> SensorReading list"
  alerts :: "Alert list"
  running :: bool

datatype event =
    SensorReplaced string
  | SensorAdded string
  | SensorRemoved string
  | RemoveMissing string
  | FieldNotFound string string
  | ActionExecuted string string
  | ActionError string exn
  | AlertTriggered string
  | AlertCleared string
  | PollError string exn
  | CollectedReadings nat string
  | NewReading string

subsection \<open>Sensor registration\<close>

definition add_sensor :: "SensorNetwork \<Rightarrow> Sensor \<Rightarrow> SensorNetwork \<times> event list" where
  "add_sensor net s =
     (net\<lparr>sensors := (sensors net)(sensor_id_of s \<mapsto> s),
          readings := (readings net)(sensor_id_of s \<mapsto> [])\<rparr>,
      (if sensor_id_of s \<in> dom (sensors net) then [SensorReplaced (sensor_id_of s)] else [])
        @ [SensorAdded (sensor_id_of s)])"

definition remove_sensor :: "SensorNetwork \<Rightarrow> string \<Rightarrow> bool \<times> SensorNetwork \<times> event list" where
  "remove_sensor net sid =
     (if sid \<in> dom (sensors net)
      then (True,
            net\<lparr>sensors := (sensors net)(sid := None),
                readings := (readings net)(sid := None)\<rparr>,
            [SensorRemoved sid])
      else (False, net, [RemoveMissing sid]))"

subsection \<open>Alert registration\<close>

text \<open>\<^verbatim>\<open>str(n)\<close> for a natural number: its decimal digits.\<close>

definition digit_char :: "nat \<Rightarrow> char" where
  "digit_char d = ''0123456789'' ! d"

fun str_nat :: "nat \<Rightarrow> string" where
  "str_nat n = (if n < 10 then [digit_char n] else str_nat (n div 10) @ [digit_char (n mod 10)])"

declare str_nat.simps [simp del]

text \<open>
  \<^verbatim>\<open>add_alert\<close>: the only check is that the sensor is registered. The condition is
  built without \<^verbatim>\<open>comparison_buffer\<close>, which therefore has its default \<open>0.0\<close>.
\<close>

definition add_alert ::
  "SensorNetwork \<Rightarrow> string \<Rightarrow> string \<Rightarrow> string \<Rightarrow> threshold \<Rightarrow> (string \<times> (exn + unit)) list
     \<Rightarrow> string option \<Rightarrow> int \<Rightarrow> (exn + string) \<times> SensorNetwork" where
  "add_alert net sid fld opr val acts alert_nm cd =
     (case sensors net sid of
        None \<Rightarrow> (Inl ValueError, net)
      | Some s \<Rightarrow>
          (let new_id = ''alert_'' @ str_nat (length (alerts net) + 1);
               nm = (case alert_nm of
                       None \<Rightarrow> ''Alert for '' @ sensor_name s @ ''.'' @ fld
                     | Some n \<Rightarrow> n);
               alert_actions = map (\<lambda>(n, cb). \<lparr>name = n, callback = cb\<rparr>) acts;
               cond = \<lparr>sensor_id = sid, field = fld, operator = opr,
                       threshold_value = val, comparison_buffer = 0\<rparr>;
               alert = \<lparr>alert_id = new_id, alert_name = nm, condition = cond,
                        actions = alert_actions, triggered = False,
                        last_triggered = None, cooldown = cd\<rparr>
           in (Inr new_id, net\<lparr>alerts := alerts net @ [alert]\<rparr>)))"

subsection \<open>Alert evaluation (\<^verbatim>\<open>_process_alerts\<close>)\<close>

text \<open>
  The attributes every reading has besides its data: the methods and the inner class
  that \<^verbatim>\<open>SensorReading\<close> defines in \<^verbatim>\<open>base.py\<close>, and the public methods of the
  pydantic model class it derives from (\<^verbatim>\<open>reading.dict()\<close> is called in the routes).
\<close>

definition model_attrs :: "string list" where
  "model_attrs =
     [''to_dict'', ''set_timestamp'', ''Config'',
      ''dict'', ''json'', ''copy'', ''parse_obj'', ''parse_raw'', ''parse_file'', ''from_orm'',
      ''construct'', ''schema'', ''schema_json'', ''validate'', ''update_forward_refs'']"

text \<open>
  \<^verbatim>\<open>hasattr\<close>/\<^verbatim>\<open>getattr\<close> on a reading: the data of the instance first, then what
  the class provides. \<open>None\<close> is \<^verbatim>\<open>hasattr(reading, field) == False\<close>.
\<close>

definition py_getattr :: "SensorReading \<Rightarrow> string \<Rightarrow> pyval option" where
  "py_getattr r f =
     (if f = ''timestamp'' then Some (Instant (timestamp r))
      else if f = ''sensor_id'' then Some (Str (reading_sensor_id r))
      else case map_of (extra_fields r) f of
        Some v \<Rightarrow> Some v
      | None \<Rightarrow>
          (case map_of (class_attrs r) f of
             Some v \<Rightarrow> Some v
           | None \<Rightarrow> if f \<in> set model_attrs then Some Object else None))"

text \<open>
  \<^verbatim>\<open>value - threshold\<close> on two floats: the exact difference rounded to the nearest
  double, ties to the even significand. \<open>round_even\<close> rounds to the nearest integer
  with ties to even; \<open>round_double\<close> scales by the unit in the last place of the
  binade of \<open>x\<close> (53 significant bits, subnormals below 2 to the power -1022). Overflow to
  infinity is outside the model.
\<close>

definition round_even :: "real \<Rightarrow> int" where
  "round_even r =
     (let f = \<lfloor>r\<rfloor> in
      if r - of_int f < 1 / 2 then f
      else if r - of_int f > 1 / 2 then f + 1
      else if even f then f else f + 1)"

definition round_double :: "real \<Rightarrow> real" where
  "round_double x =
     (if x = 0 then 0
      else let e = max \<lfloor>log 2 \<bar>x\<bar>\<rfloor> (- 1022);
               u = 2 powr of_int (e - 52)
           in of_int (round_even (x / u)) * u)"

definition float_sub :: "real \<Rightarrow> real \<Rightarrow> real" where
  "float_sub x y = round_double (x - y)"

text \<open>
  Lines 221 to 234: the comparison. A comparison or subtraction between a number and
  a string, a datetime, a list or another object raises \<^verbatim>\<open>TypeError\<close>. An operator outside the five
  names, and \<^verbatim>\<open>between\<close> with a threshold that is not a list of length two, leave
  \<^verbatim>\<open>triggered = False\<close> without comparing anything.
\<close>

definition is_pair :: "threshold \<Rightarrow> bool" where
  "is_pair t = (case t of Listval ts \<Rightarrow> length ts = 2 | Scalar _ \<Rightarrow> False)"

definition condition_met :: "AlertCondition \<Rightarrow> pyval \<Rightarrow> exn + bool" where
  "condition_met c v =
     (if operator c = ''gt'' then
        (case (v, threshold_value c) of (Num x, Scalar t) \<Rightarrow> Inr (x > t) | _ \<Rightarrow> Inl TypeError)
      else if operator c = ''lt'' then
        (case (v, threshold_value c) of (Num x, Scalar t) \<Rightarrow> Inr (x < t) | _ \<Rightarrow> Inl TypeError)
      else if operator c = ''eq'' then
        (case (v, threshold_value c) of
           (Num x, Scalar t) \<Rightarrow> Inr (\<bar>float_sub x t\<bar> \<le> comparison_buffer c)
         | _ \<Rightarrow> Inl TypeError)
      else if operator c = ''neq'' then
        (case (v, threshold_value c) of
           (Num x, Scalar t) \<Rightarrow> Inr (\<bar>float_sub x t\<bar> > comparison_buffer c)
         | _ \<Rightarrow> Inl TypeError)
      else if operator c = ''between'' \<and> is_pair (threshold_value c) then
        (case (v, threshold_value c) of
           (Num x, Listval ts) \<Rightarrow> Inr (ts ! 0 \<le> x \<and> x \<le> ts ! 1)
         | _ \<Rightarrow> Inl TypeError)
      else Inr False)"

text \<open>Lines 250 to 255: every callback is called; an exception is caught and logged.\<close>

fun run_actions :: "string \<Rightarrow> AlertAction list \<Rightarrow> event list" where
  "run_actions an [] = []"
| "run_actions an (act # rest) =
     (case callback act of
        Inr _ \<Rightarrow> ActionExecuted (name act) an
      | Inl e \<Rightarrow> ActionError (name act) e) # run_actions an rest"

text \<open>Lines 238 to 242.\<close>

definition cooldown_ok :: "Alert \<Rightarrow> instant \<Rightarrow> bool" where
  "cooldown_ok a now =
     (case last_triggered a of
        None \<Rightarrow> True
      | Some lt \<Rightarrow> now - lt > real_of_int (cooldown a))"

text \<open>
  The body of the loop over the alerts, for one alert, with \<open>now\<close> the value of
  \<^verbatim>\<open>datetime.now()\<close> at line 237. The first component is the exception that leaves
  the body, if any.
\<close>

definition evaluate_alert ::
  "string \<Rightarrow> SensorReading \<Rightarrow> instant \<Rightarrow> Alert \<Rightarrow> exn option \<times> Alert \<times> event list" where
  "evaluate_alert sid rd now a =
     (if sensor_id (condition a) \<noteq> sid then (None, a, [])
      else case py_getattr rd (field (condition a)) of
        None \<Rightarrow> (None, a, [FieldNotFound (field (condition a)) sid])
      | Some v \<Rightarrow>
          (case condition_met (condition a) v of
             Inl e \<Rightarrow> (Some e, a, [])
           | Inr met \<Rightarrow>
               if met \<and> \<not> triggered a \<and> cooldown_ok a now then
                 (None, a\<lparr>triggered := True, last_triggered := Some now\<rparr>,
                  run_actions (alert_name a) (actions a) @ [AlertTriggered (alert_name a)])
               else if \<not> met \<and> triggered a then
                 (None, a\<lparr>triggered := False\<rparr>, [AlertCleared (alert_name a)])
               else (None, a, [])))"

text \<open>
  The loop. \<open>clk i\<close> is the value \<^verbatim>\<open>datetime.now()\<close> has when the alert at position
  \<open>i\<close> is evaluated. An exception leaves the loop: the alerts already visited keep
  their new state, the others are not visited.
\<close>

fun process_alerts ::
  "string \<Rightarrow> SensorReading \<Rightarrow> (nat \<Rightarrow> instant) \<Rightarrow> Alert list \<Rightarrow> exn option \<times> Alert list \<times> event list" where
  "process_alerts sid rd clk [] = (None, [], [])"
| "process_alerts sid rd clk (a # rest) =
     (case evaluate_alert sid rd (clk 0) a of
        (Some e, a', evs) \<Rightarrow> (Some e, a' # rest, evs)
      | (None, a', evs) \<Rightarrow>
          (case process_alerts sid rd (\<lambda>i. clk (Suc i)) rest of
             (r, rest', evs') \<Rightarrow> (r, a' # rest', evs @ evs')))"

subsection \<open>One polling cycle (\<^verbatim>\<open>_poll_sensor\<close>)\<close>

text \<open>
  The body of the \<^verbatim>\<open>while self.running\<close> loop up to the sleep. \<open>rd\<close> is what
  \<^verbatim>\<open>await sensor.read()\<close> does: raise, return \<^verbatim>\<open>None\<close>, or return a reading. The
  \<^verbatim>\<open>except Exception\<close> clause catches whatever the \<^verbatim>\<open>try\<close> block raises, so the
  first component, the exception that leaves the cycle, is always \<open>None\<close>.
\<close>

definition poll_once ::
  "SensorNetwork \<Rightarrow> Sensor \<Rightarrow> exn + SensorReading option \<Rightarrow> (nat \<Rightarrow> instant)
     \<Rightarrow> exn option \<times> SensorNetwork \<times> event list" where
  "poll_once net s rd clk =
     (case rd of
        Inl e \<Rightarrow> (None, net, [PollError (sensor_name s) e])
      | Inr None \<Rightarrow> (None, net, [])
      | Inr (Some r) \<Rightarrow>
          (case readings net (sensor_id_of s) of
             None \<Rightarrow> (None, net, [PollError (sensor_name s) (KeyError (sensor_id_of s))])
           | Some rs \<Rightarrow>
               (let net1 = net\<lparr>readings := (readings net)(sensor_id_of s \<mapsto> rs @ [r])\<rparr>
                in case process_alerts (sensor_id_of s) r clk (alerts net1) of
                     (Some e, as', evs) \<Rightarrow>
                       (None, net1\<lparr>alerts := as'\<rparr>, evs @ [PollError (sensor_name s) e])
                   | (None, as', evs) \<Rightarrow>
                       (None, net1\<lparr>alerts := as'\<rparr>,
                        evs @ [if length (rs @ [r]) mod 100 = 0
                               then CollectedReadings (length (rs @ [r])) (sensor_name s)
                               else NewReading (sensor_name s)]))))"


subsection \<open>Routes (\<^verbatim>\<open>api/routes.py\<close>)\<close>

record SensorReadingResponse =
  resp_sensor_id :: string
  resp_timestamp :: instant
  resp_values :: "(string \<times> pyval) list"

record AlertResponse =
  ar_id :: string
  ar_name :: string
  ar_sensor_id :: string
  ar_field :: string
  ar_operator :: string
  ar_value :: threshold
  ar_triggered :: bool
  ar_last_triggered :: "instant option"

record CreateAlertRequest =
  req_sensor_id :: string
  req_field :: string
  req_operator :: string
  req_value :: threshold
  req_name :: "string option"
  req_cooldown :: int

text \<open>\<^verbatim>\<open>xs[i:]\<close> for any integer \<open>i\<close>.\<close>

definition py_slice_from :: "'a list \<Rightarrow> int \<Rightarrow> 'a list" where
  "py_slice_from xs i =
     (let n = int (length xs);
          j = (if i < 0 then max 0 (n + i) else min i n)
      in drop (nat j) xs)"

definition reading_dict :: "SensorReading \<Rightarrow> (string \<times> pyval) list" where
  "reading_dict r =
     (''timestamp'', Instant (timestamp r)) # (''sensor_id'', Str (reading_sensor_id r))
       # extra_fields r"

definition to_response :: "SensorReading \<Rightarrow> SensorReadingResponse" where
  "to_response r =
     \<lparr>resp_sensor_id = reading_sensor_id r,
      resp_timestamp = timestamp r,
      resp_values = filter (\<lambda>(k, v). k \<notin> set [''timestamp'', ''sensor_id'']) (reading_dict r)\<rparr>"

text \<open>
  \<^verbatim>\<open>get_sensor_readings\<close>. The parameter \<^verbatim>\<open>limit: int = Query(10, ge=1, le=1000)\<close> is
  \<open>None\<close> when the request gives no limit; a limit outside the declared range is
  rejected before the body runs. The metadata of the response is the sensor.
\<close>

definition get_sensor_readings ::
  "SensorNetwork \<Rightarrow> string \<Rightarrow> int option \<Rightarrow> instant option \<Rightarrow> instant option
     \<Rightarrow> exn + Sensor \<times> SensorReadingResponse list" where
  "get_sensor_readings net sid limit_q start_time end_time =
     (let limit = (case limit_q of None \<Rightarrow> 10 | Some l \<Rightarrow> l) in
      if limit < 1 \<or> limit > 1000 then Inl RequestValidationError
      else case sensors net sid of
        None \<Rightarrow> Inl (HTTPException 404)
      | Some s \<Rightarrow>
          (let rs = (case readings net sid of None \<Rightarrow> [] | Some l \<Rightarrow> l);
               rs1 = (case start_time of
                        None \<Rightarrow> rs
                      | Some st \<Rightarrow> filter (\<lambda>r. timestamp r \<ge> st) rs);
               rs2 = (case end_time of
                        None \<Rightarrow> rs1
                      | Some et \<Rightarrow> filter (\<lambda>r. timestamp r \<le> et) rs1);
               rs3 = py_slice_from rs2 (- limit)
           in Inr (s, map to_response rs3)))"

definition valid_operators :: "string list" where
  "valid_operators = [''gt'', ''lt'', ''eq'', ''neq'', ''between'']"

definition alert_response :: "Alert \<Rightarrow> AlertResponse" where
  "alert_response a =
     \<lparr>ar_id = alert_id a, ar_name = alert_name a,
      ar_sensor_id = sensor_id (condition a), ar_field = field (condition a),
      ar_operator = operator (condition a), ar_value = threshold_value (condition a),
      ar_triggered = triggered a, ar_last_triggered = last_triggered a\<rparr>"

text \<open>
  \<^verbatim>\<open>create_alert\<close>. The single action is the route's own logging callback, which
  returns normally. The created alert is then looked up by its id: the first alert of
  the list with that id is the one reported.
\<close>

definition create_alert ::
  "SensorNetwork \<Rightarrow> CreateAlertRequest \<Rightarrow> (exn + AlertResponse) \<times> SensorNetwork" where
  "create_alert net req =
     (if req_sensor_id req \<notin> dom (sensors net) then (Inl (HTTPException 404), net)
      else if req_operator req \<notin> set valid_operators then (Inl (HTTPException 400), net)
      else case add_alert net (req_sensor_id req) (req_field req) (req_operator req)
                  (req_value req) [(''log'', Inr ())] (req_name req) (req_cooldown req) of
        (Inl ValueError, net') \<Rightarrow> (Inl (HTTPException 400), net')
      | (Inl e, net') \<Rightarrow> (Inl e, net')
      | (Inr aid, net') \<Rightarrow>
          (case find (\<lambda>a. alert_id a = aid) (alerts net') of
             Some a \<Rightarrow> (Inr (alert_response a), net')
           | None \<Rightarrow> (Inl (HTTPException 500), net')))"

text \<open>\<^verbatim>\<open>delete_alert\<close>: the first alert with the id is popped, else 404.\<close>

fun pop_first :: "string \<Rightarrow> Alert list \<Rightarrow> Alert list option" where
  "pop_first aid [] = None"
| "pop_first aid (a # rest) =
     (if alert_id a = aid then Some rest else map_option ((#) a) (pop_first aid rest))"

definition delete_alert :: "SensorNetwork \<Rightarrow> string \<Rightarrow> (exn + unit) \<times> SensorNetwork" where
  "delete_alert net aid =
     (case pop_first aid (alerts net) of
        Some rest \<Rightarrow> (Inr (), net\<lparr>alerts := rest\<rparr>)
      | None \<Rightarrow> (Inl (HTTPException 404), net))"

subsection \<open>Observations used in the statements\<close>

text \<open>
  The names of the actions whose callbacks were called, read off the log: each call
  writes exactly one of the two action lines.
\<close>

fun invoked_actions :: "event list \<Rightarrow> string list" where
  "invoked_actions [] = []"
| "invoked_actions (ActionExecuted n an # es) = n # invoked_actions es"
| "invoked_actions (ActionError n e # es) = n # invoked_actions es"
| "invoked_actions (ev # es) = invoked_actions es"





subsection \<open>Example inputs\<close>

text \<open>
  A network with one temperature sensor; an alert on \<^verbatim>\<open>temperature > 25\<close> with a
  cooldown of ten seconds whose first action raises; an alert on the field
  \<^verbatim>\<open>unit\<close>, whose value is a string; a log of eleven readings; and the network after
  two alerts were added and the first one deleted.
\<close>

definition ex_sensor :: Sensor where
  "ex_sensor = \<lparr>sensor_id_of = ''s1'', sensor_name = ''Living Room'',
                 sensor_type = ''temperature'', update_interval_of = 1, pin = None\<rparr>"

definition ex_net :: SensorNetwork where
  "ex_net = \<lparr>network_name = ''SmartSense Network'', update_interval = 1,
              sensors = [''s1'' \<mapsto> ex_sensor], readings = [''s1'' \<mapsto> []],
              alerts = [], running = False\<rparr>"

definition ex_reading :: "instant \<Rightarrow> real \<Rightarrow> SensorReading" where
  "ex_reading t v = \<lparr>timestamp = t, reading_sensor_id = ''s1'',
                      extra_fields = [(''temperature'', Num v), (''unit'', Str ''C'')],
                      class_attrs = [(''to_fahrenheit'', Object), (''to_celsius'', Object)]\<rparr>"

definition ex_alert :: Alert where
  "ex_alert = \<lparr>alert_id = ''alert_1'', alert_name = ''High Temperature Alert'',
                condition = \<lparr>sensor_id = ''s1'', field = ''temperature'', operator = ''gt'',
                              threshold_value = Scalar 25, comparison_buffer = 0\<rparr>,
                actions = [\<lparr>name = ''activate_cooling'', callback = Inl (RuntimeError ''boom'')\<rparr>,
                           \<lparr>name = ''notify'', callback = Inr ()\<rparr>],
                triggered = False, last_triggered = None, cooldown = 10\<rparr>"

definition ex_readings11 :: "SensorReading list" where
  "ex_readings11 = [ex_reading 0 20, ex_reading 1 21, ex_reading 2 22, ex_reading 3 23,
                    ex_reading 4 24, ex_reading 5 25, ex_reading 6 26, ex_reading 7 27,
                    ex_reading 8 28, ex_reading 9 29, ex_reading 10 30]"

definition ex_net11 :: SensorNetwork where
  "ex_net11 = ex_net\<lparr>readings := [''s1'' \<mapsto> ex_readings11]\<rparr>"

definition ex_two_alerts :: SensorNetwork where
  "ex_two_alerts =
     snd (add_alert
            (snd (add_alert ex_net ''s1'' ''temperature'' ''gt'' (Scalar 25) [] None 0))
            ''s1'' ''temperature'' ''lt'' (Scalar 10) [] None 0)"

definition ex_after_delete :: SensorNetwork where
  "ex_after_delete = snd (delete_alert ex_two_alerts ''alert_1'')"

definition ex_cooling_alert :: Alert where
  "ex_cooling_alert = ex_alert\<lparr>last_triggered := Some 0\<rparr>"



section \<open>Properties\<close>

subsection \<open>Auxiliary facts\<close>

lemma invoked_actions_append:
  "invoked_actions (xs @ ys) = invoked_actions xs @ invoked_actions ys"
  by (induction xs rule: invoked_actions.induct) simp_all

lemma invoked_run_actions: "invoked_actions (run_actions an acts) = map name acts"
  by (induction acts) (simp_all split: sum.splits)

lemma length_run_actions: "length (run_actions an acts) = length acts"
  by (induction acts) simp_all

lemma run_actions_map:
  "run_actions an acts =
     map (\<lambda>act. case callback act of
                  Inr _ \<Rightarrow> ActionExecuted (name act) an
                | Inl e \<Rightarrow> ActionError (name act) e) acts"
  by (induction acts) simp_all

lemma run_actions_nth:
  "i < length acts \<Longrightarrow>
   run_actions an acts ! i =
     (case callback (acts ! i) of
        Inr _ \<Rightarrow> ActionExecuted (name (acts ! i)) an
      | Inl e \<Rightarrow> ActionError (name (acts ! i)) e)"
  by (simp add: run_actions_map)

lemma cooldown_ok_iff:
  "cooldown_ok a now \<longleftrightarrow>
     last_triggered a = None
     \<or> (\<exists>lt. last_triggered a = Some lt \<and> now - lt > real_of_int (cooldown a))"
  by (auto simp: cooldown_ok_def split: option.splits)


lemma process_alerts_completes:
  "fst (process_alerts sid rd clk as) = None \<Longrightarrow> i < length as \<Longrightarrow>
   fst (evaluate_alert sid rd (clk i) (as ! i)) = None
   \<and> fst (snd (process_alerts sid rd clk as)) ! i
       = fst (snd (evaluate_alert sid rd (clk i) (as ! i)))"
proof (induction as arbitrary: clk i)
  case Nil
  then show ?case by simp
next
  case (Cons a as)
  obtain r a' evs where ev: "evaluate_alert sid rd (clk 0) a = (r, a', evs)"
    by (cases "evaluate_alert sid rd (clk 0) a") auto
  from Cons.prems(1) ev have r: "r = None"
    by (cases r) (auto split: prod.splits)
  obtain r2 as' evs' where rest: "process_alerts sid rd (\<lambda>i. clk (Suc i)) as = (r2, as', evs')"
    by (cases "process_alerts sid rd (\<lambda>i. clk (Suc i)) as") auto
  from Cons.prems(1) ev r rest have r2: "r2 = None" by simp
  show ?case
  proof (cases i)
    case 0
    with ev r rest show ?thesis by simp
  next
    case (Suc j)
    with Cons.prems(2) have j: "j < length as" by simp
    from Cons.IH[of "\<lambda>i. clk (Suc i)" j] rest r2 j
    have "fst (evaluate_alert sid rd (clk (Suc j)) (as ! j)) = None
          \<and> as' ! j = fst (snd (evaluate_alert sid rd (clk (Suc j)) (as ! j)))"
      by simp
    with Suc ev r rest show ?thesis by simp
  qed
qed

lemma process_alerts_events:
  "fst (process_alerts sid rd clk as) = None \<Longrightarrow>
   snd (snd (process_alerts sid rd clk as))
     = concat (map (\<lambda>i. snd (snd (evaluate_alert sid rd (clk i) (as ! i)))) [0..<length as])"
proof (induction as arbitrary: clk)
  case Nil
  then show ?case by simp
next
  case (Cons a as)
  obtain r a' evs where ev: "evaluate_alert sid rd (clk 0) a = (r, a', evs)"
    by (cases "evaluate_alert sid rd (clk 0) a") auto
  from Cons.prems(1) ev have r: "r = None"
    by (cases r) (auto split: prod.splits)
  obtain r2 as' evs' where rest: "process_alerts sid rd (\<lambda>i. clk (Suc i)) as = (r2, as', evs')"
    by (cases "process_alerts sid rd (\<lambda>i. clk (Suc i)) as") auto
  from Cons.prems(1) ev r rest have r2: "r2 = None" by simp
  have idx: "[0..<length (a # as)] = 0 # map Suc [0..<length as]"
    by (simp add: upt_conv_Cons map_Suc_upt del: upt_Suc)
  from Cons.IH[of "\<lambda>i. clk (Suc i)"] rest r2
  have "evs' = concat (map (\<lambda>i. snd (snd (evaluate_alert sid rd (clk (Suc i)) (as ! i)))) [0..<length as])"
    by simp
  with ev r rest show ?case
    unfolding idx by (simp add: comp_def)
qed

lemma poll_once_no_escape: "fst (poll_once net s rd clk) = None"
  by (auto simp: poll_once_def Let_def split: sum.splits option.splits prod.splits)





lemma get_sensor_readings_limit_range:
  "k < 1 \<or> k > 1000 \<Longrightarrow> get_sensor_readings net sid (Some k) st et = Inl RequestValidationError"
  by (auto simp: get_sensor_readings_def)



lemma add_alert_registered:
  assumes "sensors net sid = Some s"
  shows "add_alert net sid fld opr val acts alert_nm cd
           = (Inr (''alert_'' @ str_nat (length (alerts net) + 1)),
              net\<lparr>alerts := alerts net @
                 [\<lparr>alert_id = ''alert_'' @ str_nat (length (alerts net) + 1),
                   alert_name = (case alert_nm of
                                   None \<Rightarrow> ''Alert for '' @ sensor_name s @ ''.'' @ fld
                                 | Some n \<Rightarrow> n),
                   condition = \<lparr>sensor_id = sid, field = fld, operator = opr,
                                 threshold_value = val, comparison_buffer = 0\<rparr>,
                   actions = map (\<lambda>(n, cb). \<lparr>name = n, callback = cb\<rparr>) acts,
                   triggered = False, last_triggered = None, cooldown = cd\<rparr>]\<rparr>)"
  using assms by (simp add: add_alert_def Let_def)

lemma find_snoc_hit: "P x \<Longrightarrow> \<exists>y. find P (xs @ [x]) = Some y"
  by (cases "find P (xs @ [x])") (auto simp: find_None_iff)








lemma floor_log2_binade: "1 \<le> x \<Longrightarrow> x < 2 \<Longrightarrow> \<lfloor>log 2 x\<rfloor> = 0"
proof -
  assume a: "1 \<le> x" "x < 2"
  have "0 \<le> log 2 x" using a by simp
  moreover have "log 2 x < log 2 2" using a by (subst log_less_cancel_iff) simp_all
  ultimately show ?thesis by (simp add: floor_eq_iff)
qed

lemma round_double_binade:
  assumes "1 \<le> x" and "x < 2"
  shows "round_double x = of_int (round_even (x * 2 ^ 52)) / 2 ^ 52"
proof -
  have ax: "\<bar>x\<bar> = x" using assms by simp
  have e: "\<lfloor>log 2 \<bar>x\<bar>\<rfloor> = 0" unfolding ax by (rule floor_log2_binade[OF assms])
  have u: "(2::real) powr of_int (max 0 (- 1022) - 52) = 1 / 2 ^ 52"
    by (simp add: powr_minus powr_numeral divide_simps)
  have "x \<noteq> 0" using assms by simp
  then show ?thesis
    unfolding round_double_def e Let_def u by simp
qed

lemma round_even_below_half:
  assumes "of_int n \<le> r" and "r < of_int n + 1 / 2"
  shows "round_even r = n"
proof -
  have f: "\<lfloor>r\<rfloor> = n" using assms by (simp add: floor_eq_iff)
  show ?thesis unfolding round_even_def f Let_def using assms by simp
qed

lemma float_sub_example: "float_sub 1 (- (1 / 2 ^ 60)) = 1"
proof -
  define x :: real where "x = 1 + 1 / 2 ^ 60"
  have b: "1 \<le> x" "x < 2" by (simp_all add: x_def)
  have "round_even (x * 2 ^ 52) = 2 ^ 52"
    by (rule round_even_below_half) (simp_all add: x_def)
  then have "round_double x = 1"
    using round_double_binade[OF b] by simp
  moreover have "float_sub 1 (- (1 / 2 ^ 60)) = round_double x"
    by (simp add: float_sub_def x_def)
  ultimately show ?thesis by simp
qed

subsection \<open>Alert evaluation\<close>





text \<open>
  Claim C4, as the code has it. On a numeric value \<open>v\<close>: \<open>gt\<close> is met iff \<open>v > t\<close>, \<open>lt\<close>
  iff \<open>v < t\<close>, and \<open>between\<close> with the pair \<open>[low, high]\<close> iff \<open>low \<le> v \<le> high\<close>, both
  ends included: with \<open>[18, 26]\<close> the values 20 and 26 are met and 26.01 is not. \<open>eq\<close> is
  met iff the magnitude of the floating-point difference of \<open>v\<close> and \<open>t\<close>, which is
  \<open>v - t\<close> rounded to the nearest double, is at most \<open>b\<close>, and \<open>neq\<close> iff it is greater.
\<close>

theorem condition_met_operators:
  "condition_met \<lparr>sensor_id = sid, field = fld, operator = ''gt'',
       threshold_value = Scalar t, comparison_buffer = b\<rparr> (Num v) = Inr (v > t)
   \<and> condition_met \<lparr>sensor_id = sid, field = fld, operator = ''lt'',
       threshold_value = Scalar t, comparison_buffer = b\<rparr> (Num v) = Inr (v < t)
   \<and> condition_met \<lparr>sensor_id = sid, field = fld, operator = ''eq'',
       threshold_value = Scalar t, comparison_buffer = b\<rparr> (Num v)
       = Inr (\<bar>float_sub v t\<bar> \<le> b)
   \<and> condition_met \<lparr>sensor_id = sid, field = fld, operator = ''neq'',
       threshold_value = Scalar t, comparison_buffer = b\<rparr> (Num v)
       = Inr (\<bar>float_sub v t\<bar> > b)
   \<and> float_sub v t = round_double (v - t)
   \<and> condition_met \<lparr>sensor_id = sid, field = fld, operator = ''between'',
       threshold_value = Listval [low, high], comparison_buffer = b\<rparr> (Num v)
       = Inr (low \<le> v \<and> v \<le> high)
   \<and> condition_met \<lparr>sensor_id = sid, field = fld, operator = ''between'',
       threshold_value = Listval [18, 26], comparison_buffer = b\<rparr> (Num 20) = Inr True
   \<and> condition_met \<lparr>sensor_id = sid, field = fld, operator = ''between'',
       threshold_value = Listval [18, 26], comparison_buffer = b\<rparr> (Num 26) = Inr True
   \<and> condition_met \<lparr>sensor_id = sid, field = fld, operator = ''between'',
       threshold_value = Listval [18, 26], comparison_buffer = b\<rparr> (Num 26.01) = Inr False"
  by (simp add: condition_met_def is_pair_def float_sub_def)

text \<open>
  Claim C4 as stated fails for \<open>eq\<close> and \<open>neq\<close>: with \<open>v = 1\<close>, \<open>t = - 2\<^sup>-\<^sup>6\<^sup>0\<close> and
  \<open>b = 1\<close> the exact distance \<open>1 + 2\<^sup>-\<^sup>6\<^sup>0\<close> is greater than \<open>b\<close>, but the difference
  computed in floating point is \<open>1\<close>, so \<open>eq\<close> is met and \<open>neq\<close> is not.
\<close>

theorem eq_rounding_counterexample:
  "condition_met \<lparr>sensor_id = ''s1'', field = ''temperature'', operator = ''eq'',
          threshold_value = Scalar (- (1 / 2 ^ 60)), comparison_buffer = 1\<rparr> (Num 1) = Inr True
   \<and> condition_met \<lparr>sensor_id = ''s1'', field = ''temperature'', operator = ''neq'',
          threshold_value = Scalar (- (1 / 2 ^ 60)), comparison_buffer = 1\<rparr> (Num 1) = Inr False
   \<and> \<not> \<bar>1 - (- (1 / 2 ^ 60))\<bar> \<le> (1::real)"
proof -
  have "condition_met \<lparr>sensor_id = ''s1'', field = ''temperature'', operator = ''eq'',
          threshold_value = Scalar (- (1 / 2 ^ 60)), comparison_buffer = 1\<rparr> (Num 1)
        = Inr (\<bar>float_sub 1 (- (1 / 2 ^ 60))\<bar> \<le> 1)"
    by (simp add: condition_met_def)
  moreover have "condition_met \<lparr>sensor_id = ''s1'', field = ''temperature'', operator = ''neq'',
          threshold_value = Scalar (- (1 / 2 ^ 60)), comparison_buffer = 1\<rparr> (Num 1)
        = Inr (\<bar>float_sub 1 (- (1 / 2 ^ 60))\<bar> > 1)"
    by (simp add: condition_met_def)
  ultimately show ?thesis
    using float_sub_example by simp
qed

text \<open>
  Claim C9. An edge suppressed by the cooldown changes nothing: when the condition is met,
  the alert is not triggered and the time elapsed since \<open>last_triggered\<close> does not exceed
  \<open>cooldown\<close>, the alert stays untriggered, \<open>last_triggered\<close> keeps its value and no
  action is called.
\<close>

theorem cooldown_suppressed_edge:
  assumes "sensor_id (condition a) = sid"
      and "py_getattr rd (field (condition a)) = Some v"
      and "condition_met (condition a) v = Inr True"
      and "\<not> triggered a"
      and "last_triggered a = Some lt"
      and "now - lt \<le> real_of_int (cooldown a)"
  shows "evaluate_alert sid rd now a = (None, a, [])
       \<and> \<not> triggered (fst (snd (evaluate_alert sid rd now a)))
       \<and> last_triggered (fst (snd (evaluate_alert sid rd now a))) = Some lt
       \<and> invoked_actions (snd (snd (evaluate_alert sid rd now a))) = []"
  using assms by (simp add: evaluate_alert_def cooldown_ok_def)

theorem cooldown_suppressed_edge_witness:
  "condition_met (condition ex_cooling_alert) (Num 26) = Inr True
   \<and> \<not> triggered ex_cooling_alert
   \<and> last_triggered ex_cooling_alert = Some 0
   \<and> (3::real) - 0 \<le> real_of_int (cooldown ex_cooling_alert)
   \<and> evaluate_alert ''s1'' (ex_reading 3 26) 3 ex_cooling_alert = (None, ex_cooling_alert, [])"
  using cooldown_suppressed_edge
          [of ex_cooling_alert "''s1''" "ex_reading 3 26" "Num 26" 0 3]
  by (simp add: ex_cooling_alert_def ex_alert_def ex_reading_def py_getattr_def condition_met_def)
text \<open>
  Claim C6. When an alert triggers and the callback of one of its actions raises, the
  exception does not leave the evaluation: the failure is logged at the action's
  position, every action of the alert is called, the alert is triggered with
  \<open>last_triggered\<close> set to the current time, and no exception leaves the polling cycle.
\<close>

theorem action_failure_isolated:
  assumes "sensor_id (condition a) = sid"
      and "py_getattr rd (field (condition a)) = Some v"
      and "condition_met (condition a) v = Inr True"
      and "\<not> triggered a"
      and "last_triggered a = None
             \<or> (\<exists>lt. last_triggered a = Some lt \<and> now - lt > real_of_int (cooldown a))"
      and "i < length (actions a)"
      and "callback (actions a ! i) = Inl e"
  shows "fst (evaluate_alert sid rd now a) = None
       \<and> triggered (fst (snd (evaluate_alert sid rd now a)))
       \<and> last_triggered (fst (snd (evaluate_alert sid rd now a))) = Some now
       \<and> snd (snd (evaluate_alert sid rd now a)) ! i = ActionError (name (actions a ! i)) e
       \<and> invoked_actions (snd (snd (evaluate_alert sid rd now a))) = map name (actions a)
       \<and> fst (poll_once net s (Inr (Some rd)) clk) = None"
  using assms
  by (simp add: evaluate_alert_def cooldown_ok_iff invoked_actions_append invoked_run_actions
        nth_append length_run_actions run_actions_nth poll_once_no_escape)

theorem action_failure_isolated_witness:
  "callback (actions ex_alert ! 0) = Inl (RuntimeError ''boom'')
   \<and> fst (evaluate_alert ''s1'' (ex_reading 0 26) 0 ex_alert) = None
   \<and> triggered (fst (snd (evaluate_alert ''s1'' (ex_reading 0 26) 0 ex_alert)))
   \<and> last_triggered (fst (snd (evaluate_alert ''s1'' (ex_reading 0 26) 0 ex_alert))) = Some 0
   \<and> invoked_actions (snd (snd (evaluate_alert ''s1'' (ex_reading 0 26) 0 ex_alert)))
       = [''activate_cooling'', ''notify'']
   \<and> poll_once (ex_net\<lparr>alerts := [ex_alert]\<rparr>) ex_sensor (Inr (Some (ex_reading 0 26))) (\<lambda>i. 0)
       = (None,
          ex_net\<lparr>readings := [''s1'' \<mapsto> [ex_reading 0 26]],
                 alerts := [ex_alert\<lparr>triggered := True, last_triggered := Some 0\<rparr>]\<rparr>,
          [ActionError ''activate_cooling'' (RuntimeError ''boom''),
           ActionExecuted ''notify'' ''High Temperature Alert'',
           AlertTriggered ''High Temperature Alert'',
           NewReading ''Living Room''])"
  using action_failure_isolated
          [of ex_alert "''s1''" "ex_reading 0 26" "Num 26" 0 0 "RuntimeError ''boom''"
              "ex_net\<lparr>alerts := [ex_alert]\<rparr>" ex_sensor "\<lambda>i. 0"]
  by (simp add: ex_alert_def ex_reading_def ex_net_def ex_sensor_def py_getattr_def
        condition_met_def poll_once_def evaluate_alert_def cooldown_ok_def Let_def)
subsection \<open>Registration of sensors and alerts\<close>

text \<open>
  Claim C3. \<^verbatim>\<open>add_alert\<close> for a sensor id that is not registered raises
  \<^verbatim>\<open>ValueError\<close> and leaves the network as it was: the same alerts, sensors and
  readings.
\<close>

theorem add_alert_unregistered_sensor:
  assumes "sid \<notin> dom (sensors net)"
  shows "add_alert net sid fld opr val acts alert_nm cd = (Inl ValueError, net)
       \<and> alerts (snd (add_alert net sid fld opr val acts alert_nm cd)) = alerts net
       \<and> sensors (snd (add_alert net sid fld opr val acts alert_nm cd)) = sensors net
       \<and> readings (snd (add_alert net sid fld opr val acts alert_nm cd)) = readings net"
  using assms by (auto simp: add_alert_def split: option.splits)

theorem add_alert_unregistered_sensor_witness:
  "''ghost'' \<notin> dom (sensors ex_net11)
   \<and> add_alert ex_net11 ''ghost'' ''temperature'' ''gt'' (Scalar 25) [(''log'', Inr ())] None 0
       = (Inl ValueError, ex_net11)"
  using add_alert_unregistered_sensor
          [of "''ghost''" ex_net11 "''temperature''" "''gt''" "Scalar 25" "[(''log'', Inr ())]" None 0]
  by (simp add: ex_net11_def ex_net_def)

text \<open>
  Claim C10. \<^verbatim>\<open>add_sensor\<close> with the id of a registered sensor replaces that sensor and
  resets the readings of that id to the empty list; the alerts and the other sensors
  and their readings are untouched.
\<close>

theorem add_sensor_duplicate_id:
  assumes "sensor_id_of s \<in> dom (sensors net)"
  shows "sensors (fst (add_sensor net s)) (sensor_id_of s) = Some s
       \<and> readings (fst (add_sensor net s)) (sensor_id_of s) = Some []
       \<and> alerts (fst (add_sensor net s)) = alerts net
       \<and> (\<forall>k. k \<noteq> sensor_id_of s \<longrightarrow>
             sensors (fst (add_sensor net s)) k = sensors net k
           \<and> readings (fst (add_sensor net s)) k = readings net k)"
  by (simp add: add_sensor_def)

theorem add_sensor_duplicate_id_witness:
  "sensor_id_of (ex_sensor\<lparr>sensor_name := ''Kitchen''\<rparr>) \<in> dom (sensors ex_net11)
   \<and> readings ex_net11 ''s1'' = Some ex_readings11
   \<and> sensors (fst (add_sensor ex_net11 (ex_sensor\<lparr>sensor_name := ''Kitchen''\<rparr>))) ''s1''
       = Some (ex_sensor\<lparr>sensor_name := ''Kitchen''\<rparr>)
   \<and> readings (fst (add_sensor ex_net11 (ex_sensor\<lparr>sensor_name := ''Kitchen''\<rparr>))) ''s1''
       = Some []"
  using add_sensor_duplicate_id [of "ex_sensor\<lparr>sensor_name := ''Kitchen''\<rparr>" ex_net11]
  by (simp add: ex_net11_def ex_net_def ex_sensor_def)

text \<open>
  Claim C2, as the code has it. The route \<^verbatim>\<open>create_alert\<close> rejects an operator outside
  the five names (404 when the sensor is unknown, else 400) and leaves the network
  unchanged. A \<^verbatim>\<open>between\<close> threshold is not inspected: for a registered sensor the
  route succeeds and stores the threshold as given.
\<close>

theorem create_alert_validation:
  "(req_operator req \<notin> {''gt'', ''lt'', ''eq'', ''neq'', ''between''} \<longrightarrow>
      create_alert net req
        = (Inl (HTTPException (if req_sensor_id req \<in> dom (sensors net) then 400 else 404)),
           net))
   \<and> (req_sensor_id req \<in> dom (sensors net) \<and> req_operator req = ''between'' \<longrightarrow>
        (\<exists>resp. fst (create_alert net req) = Inr resp)
        \<and> length (alerts (snd (create_alert net req))) = length (alerts net) + 1
        \<and> threshold_value (condition (last (alerts (snd (create_alert net req)))))
            = req_value req)"
proof (intro conjI impI)
  assume "req_operator req \<notin> {''gt'', ''lt'', ''eq'', ''neq'', ''between''}"
  then show "create_alert net req
        = (Inl (HTTPException (if req_sensor_id req \<in> dom (sensors net) then 400 else 404)),
           net)"
    by (simp add: create_alert_def valid_operators_def)
next
  assume a: "req_sensor_id req \<in> dom (sensors net) \<and> req_operator req = ''between''"
  then obtain s where s: "sensors net (req_sensor_id req) = Some s" by auto
  define aid where "aid = ''alert_'' @ str_nat (length (alerts net) + 1)"
  define new where "new = \<lparr>alert_id = aid,
                   alert_name = (case req_name req of
                                   None \<Rightarrow> ''Alert for '' @ sensor_name s @ ''.'' @ req_field req
                                 | Some n \<Rightarrow> n),
                   condition = \<lparr>sensor_id = req_sensor_id req, field = req_field req,
                                 operator = req_operator req,
                                 threshold_value = req_value req, comparison_buffer = 0\<rparr>,
                   actions = map (\<lambda>(n, cb). \<lparr>name = n, callback = cb\<rparr>) [(''log'', Inr ())],
                   triggered = False, last_triggered = None, cooldown = req_cooldown req\<rparr>"
  have add: "add_alert net (req_sensor_id req) (req_field req) (req_operator req)
                  (req_value req) [(''log'', Inr ())] (req_name req) (req_cooldown req)
             = (Inr aid, net\<lparr>alerts := alerts net @ [new]\<rparr>)"
    unfolding aid_def new_def by (rule add_alert_registered[OF s])
  have "alert_id new = aid" by (simp add: new_def)
  then obtain y where y: "find (\<lambda>a. alert_id a = aid) (alerts net @ [new]) = Some y"
    using find_snoc_hit[of "\<lambda>a. alert_id a = aid" new "alerts net"] by auto
  from a have opv: "req_operator req \<in> set valid_operators"
    by (simp add: valid_operators_def)
  from a have reg: "req_sensor_id req \<in> dom (sensors net)" by simp
  have ca: "create_alert net req
              = (Inr (alert_response y), net\<lparr>alerts := alerts net @ [new]\<rparr>)"
    by (simp add: create_alert_def opv reg add y)
  show "\<exists>resp. fst (create_alert net req) = Inr resp" by (simp add: ca)
  show "length (alerts (snd (create_alert net req))) = length (alerts net) + 1" by (simp add: ca)
  show "threshold_value (condition (last (alerts (snd (create_alert net req))))) = req_value req"
    by (simp add: ca new_def)
qed

theorem create_alert_validation_witness:
  "create_alert ex_net \<lparr>req_sensor_id = ''s1'', req_field = ''temperature'',
        req_operator = ''approx'', req_value = Scalar 25, req_name = None, req_cooldown = 0\<rparr>
     = (Inl (HTTPException 400), ex_net)
   \<and> create_alert ex_net \<lparr>req_sensor_id = ''ghost'', req_field = ''temperature'',
        req_operator = ''approx'', req_value = Scalar 25, req_name = None, req_cooldown = 0\<rparr>
     = (Inl (HTTPException 404), ex_net)
   \<and> length (alerts (snd (create_alert ex_net \<lparr>req_sensor_id = ''s1'', req_field = ''temperature'',
        req_operator = ''between'', req_value = Listval [26, 18], req_name = None,
        req_cooldown = 0\<rparr>))) = 1"
  using create_alert_validation
          [of "\<lparr>req_sensor_id = ''s1'', req_field = ''temperature'',
                req_operator = ''approx'', req_value = Scalar 25, req_name = None,
                req_cooldown = 0\<rparr>" ex_net]
        create_alert_validation
          [of "\<lparr>req_sensor_id = ''ghost'', req_field = ''temperature'',
                req_operator = ''approx'', req_value = Scalar 25, req_name = None,
                req_cooldown = 0\<rparr>" ex_net]
        create_alert_validation
          [of "\<lparr>req_sensor_id = ''s1'', req_field = ''temperature'',
                req_operator = ''between'', req_value = Listval [26, 18], req_name = None,
                req_cooldown = 0\<rparr>" ex_net]
  by (simp add: ex_net_def)

text \<open>
  Claim C2 as stated fails: \<^verbatim>\<open>add_alert\<close> accepts the operator \<^verbatim>\<open>approx\<close>, and
  \<^verbatim>\<open>create_alert\<close> accepts \<^verbatim>\<open>between\<close> with the thresholds \<open>[26, 18]\<close> (low above
  high) and \<open>[1, 2, 3]\<close> (three values).
\<close>

theorem alert_validation_counterexample:
  "fst (add_alert ex_net ''s1'' ''temperature'' ''approx'' (Scalar 25) [] None 0) = Inr ''alert_1''
   \<and> fst (create_alert ex_net \<lparr>req_sensor_id = ''s1'', req_field = ''temperature'',
              req_operator = ''between'', req_value = Listval [26, 18],
              req_name = None, req_cooldown = 0\<rparr>)
       = Inr \<lparr>ar_id = ''alert_1'', ar_name = ''Alert for Living Room.temperature'',
              ar_sensor_id = ''s1'', ar_field = ''temperature'', ar_operator = ''between'',
              ar_value = Listval [26, 18], ar_triggered = False, ar_last_triggered = None\<rparr>
   \<and> fst (create_alert ex_net \<lparr>req_sensor_id = ''s1'', req_field = ''temperature'',
              req_operator = ''between'', req_value = Listval [1, 2, 3],
              req_name = None, req_cooldown = 0\<rparr>)
       = Inr \<lparr>ar_id = ''alert_1'', ar_name = ''Alert for Living Room.temperature'',
              ar_sensor_id = ''s1'', ar_field = ''temperature'', ar_operator = ''between'',
              ar_value = Listval [1, 2, 3], ar_triggered = False, ar_last_triggered = None\<rparr>"
  by (simp add: ex_net_def ex_sensor_def add_alert_def create_alert_def valid_operators_def
        alert_response_def Let_def str_nat.simps digit_char_def)

text \<open>
  Claim C5 fails on the code: the id is built from the length of the alert list. After
  \<^verbatim>\<open>alert_1\<close> and \<^verbatim>\<open>alert_2\<close> are added and \<^verbatim>\<open>alert_1\<close> is deleted, the next
  \<^verbatim>\<open>add_alert\<close> returns \<^verbatim>\<open>alert_2\<close> again, the id of an alert that is still present.
  The route \<^verbatim>\<open>create_alert\<close>, which looks the new alert up by its id, then reports the
  older alert (\<^verbatim>\<open>lt 10\<close>) in place of the one it created (\<^verbatim>\<open>gt 30\<close>).
\<close>

theorem add_alert_id_collision:
  "map alert_id (alerts ex_two_alerts) = [''alert_1'', ''alert_2'']
   \<and> fst (delete_alert ex_two_alerts ''alert_1'') = Inr ()
   \<and> map alert_id (alerts ex_after_delete) = [''alert_2'']
   \<and> fst (add_alert ex_after_delete ''s1'' ''temperature'' ''gt'' (Scalar 30) [] None 0)
       = Inr ''alert_2''
   \<and> map alert_id
        (alerts (snd (add_alert ex_after_delete ''s1'' ''temperature'' ''gt'' (Scalar 30) [] None 0)))
       = [''alert_2'', ''alert_2'']
   \<and> fst (create_alert ex_after_delete
             \<lparr>req_sensor_id = ''s1'', req_field = ''temperature'', req_operator = ''gt'',
              req_value = Scalar 30, req_name = None, req_cooldown = 0\<rparr>)
       = Inr \<lparr>ar_id = ''alert_2'', ar_name = ''Alert for Living Room.temperature'',
              ar_sensor_id = ''s1'', ar_field = ''temperature'', ar_operator = ''lt'',
              ar_value = Scalar 10, ar_triggered = False, ar_last_triggered = None\<rparr>"
  by (simp add: ex_after_delete_def ex_two_alerts_def ex_net_def ex_sensor_def add_alert_def
        delete_alert_def create_alert_def valid_operators_def alert_response_def Let_def
        str_nat.simps digit_char_def)
subsection \<open>Reading store\<close>



text \<open>
  Claim C8, as the code has it. \<^verbatim>\<open>remove_sensor\<close> returns \<^verbatim>\<open>True\<close> for a registered id
  and removes the sensor and its reading log, after which a readings query for that id
  is answered with 404; for an unknown id it returns \<^verbatim>\<open>False\<close> and changes nothing.
\<close>

theorem remove_sensor_result:
  "(sid \<in> dom (sensors net) \<longrightarrow>
      fst (remove_sensor net sid) = True
      \<and> sensors (fst (snd (remove_sensor net sid))) sid = None
      \<and> readings (fst (snd (remove_sensor net sid))) sid = None
      \<and> get_sensor_readings (fst (snd (remove_sensor net sid))) sid None st et
          = Inl (HTTPException 404))
   \<and> (sid \<notin> dom (sensors net) \<longrightarrow>
      fst (remove_sensor net sid) = False
      \<and> fst (snd (remove_sensor net sid)) = net)"
  by (simp add: remove_sensor_def get_sensor_readings_def)

theorem remove_sensor_result_witness:
  "''s1'' \<in> dom (sensors ex_net11)
   \<and> fst (remove_sensor ex_net11 ''s1'') = True
   \<and> readings (fst (snd (remove_sensor ex_net11 ''s1''))) ''s1'' = None
   \<and> ''ghost'' \<notin> dom (sensors ex_net11)
   \<and> fst (remove_sensor ex_net11 ''ghost'') = False
   \<and> fst (snd (remove_sensor ex_net11 ''ghost'')) = ex_net11"
  using remove_sensor_result [of "''s1''" ex_net11 None None]
        remove_sensor_result [of "''ghost''" ex_net11 None None]
  by (simp add: ex_net11_def ex_net_def)

text \<open>
  Claim C8 as stated fails: after the removal the readings query does not return an
  empty result, it fails with 404.
\<close>

theorem removed_sensor_query_counterexample:
  "fst (remove_sensor ex_net11 ''s1'') = True
   \<and> get_sensor_readings (fst (snd (remove_sensor ex_net11 ''s1''))) ''s1'' None None None
       = Inl (HTTPException 404)"
  by (simp add: ex_net11_def ex_net_def remove_sensor_def get_sensor_readings_def)

end
